theory Spec2Isabelle
  imports Main
begin

section \<open>The command controller of \<open>frontend/src/App.jsx\<close>\<close>

text \<open>
  The file is an ES module holding one React component, \<open>App\<close>. The controller is made of
  the closures \<open>toggleListening\<close> (lines 27-29), \<open>handleSendMessage\<close> (lines 31-45) and
  \<open>generateWebsiteAsync\<close> (line 55), and of the classifier \<open>isWebsiteGenerationRequest\<close>,
  a function declaration that stands inside the \<open>try\<close> block of \<open>handleSendMessage\<close>
  (line 40).

  The model reads each of these closures as it is written, under the scopes that the
  declarations of the file give. Two places of the file outside them are left out: the
  expression of line 16 inside \<open>initSpeech\<close> (a class expression with no body), and
  \<open>useCallback\<close> on line 27, which the file does not import; \<open>toggleListening\<close> stands
  for the function handed to it.

  Texts are strings, as the code expects (\<open>messageText.toLowerCase()\<close>): lists of 8-bit
  characters, the code units below 256 of a JavaScript string.
\<close>

subsection \<open>Strings: \<open>includes\<close>, \<open>toLowerCase\<close>, \<open>RegExp.test\<close>\<close>

text \<open>\<open>matches_at s p\<close>: the pattern \<open>p\<close> stands at the very start of \<open>s\<close>.\<close>

fun matches_at :: "string \<Rightarrow> string \<Rightarrow> bool" where
  "matches_at s [] = True"
| "matches_at [] (p # ps) = False"
| "matches_at (c # cs) (p # ps) = (c = p \<and> matches_at cs ps)"

text \<open>\<open>s.includes(p)\<close>: \<open>p\<close> stands at some position of \<open>s\<close>.\<close>

fun includes_str :: "string \<Rightarrow> string \<Rightarrow> bool" where
  "includes_str [] p = matches_at [] p"
| "includes_str (c # cs) p = (matches_at (c # cs) p \<or> includes_str cs p)"

text \<open>
  \<open>toLowerCase\<close> on one code unit below 256: the letters \<open>A\<close>-\<open>Z\<close> (65-90) and the
  Latin-1 capitals 192-222 other than the multiplication sign 215 move up by 32; every
  other code unit stays.
\<close>

definition toLowerCase_char :: "char \<Rightarrow> char" where
  "toLowerCase_char c =
     (let n = (of_char c :: nat) in
      if (65 \<le> n \<and> n \<le> 90) \<or> (192 \<le> n \<and> n \<le> 222 \<and> n \<noteq> 215)
      then char_of (n + 32) else c)"

definition toLowerCase :: "string \<Rightarrow> string" where
  "toLowerCase s = map toLowerCase_char s"

text \<open>
  A regular expression that is an alternation of literal strings, with no flag, as
  \<open>/build website|create website/\<close> is: \<open>test\<close> succeeds when one alternative occurs
  somewhere in the subject, letter case as written.
\<close>

definition regex_test :: "string list \<Rightarrow> string \<Rightarrow> bool" where
  "regex_test alternatives s = list_ex (includes_str s) alternatives"

subsection \<open>The intent classifier (line 40)\<close>

definition isWebsiteGenerationRequest :: "string \<Rightarrow> bool" where
  "isWebsiteGenerationRequest message =
     regex_test [''build website'', ''create website''] message"

subsection \<open>Errors, promise outcomes, identifier bindings\<close>

text \<open>
  \<open>ReferenceError x\<close>: the identifier \<open>x\<close> was evaluated where no enclosing scope binds
  it. \<open>TaskError\<close>: any value a generation task rejects with.
\<close>

datatype js_error = ReferenceError string | TaskError string

text \<open>How a promise settles.\<close>

datatype 'a settled = Fulfilled 'a | Rejected js_error

text \<open>How a synchronous call ends.\<close>

datatype completion = Normal | Throw js_error

text \<open>What the evaluation of an identifier finds.\<close>

datatype 'a binding = Unresolvable | Bound 'a

text \<open>
  The names each scope of the file declares. A function's scope holds its parameters and
  the declarations of its body's top level; a block's scope holds the \<open>let\<close>, \<open>const\<close>
  and function declarations written in the block. The file is an ES module (it has
  \<open>import\<close> and \<open>export\<close>), hence strict-mode code: a function declaration in a block
  is bound in that block only.
\<close>

text \<open>The names of a browser's global object that the file uses.\<close>

definition global_scope :: "string list" where
  "global_scope =
     [''window'', ''navigator'', ''console'', ''Promise'', ''webkitSpeechRecognition'']"

definition module_scope :: "string list" where
  "module_scope = [''React'', ''useState'', ''useEffect'', ''useRef'', ''App'']"

definition App_scope :: "string list" where
  "App_scope =
     [''messages'', ''setMessages'', ''input'', ''setInput'', ''isListening'',
      ''setIsListening'', ''generatedWebsiteUrlRef'', ''toggleListening'',
      ''handleSendMessage'', ''speakText'', ''generateWebsiteAsync'']"

text \<open>Lines 12-22: \<open>speech\<close> is a \<open>let\<close> of \<open>initSpeech\<close>, the function of the effect.\<close>

definition initSpeech_scope :: "string list" where
  "initSpeech_scope = [''speech'']"

definition toggleListening_scope :: "string list" where
  "toggleListening_scope = []"

definition handleSendMessage_scope :: "string list" where
  "handleSendMessage_scope = [''messageText'']"

text \<open>Lines 34-41: the block of the \<open>try\<close> statement.\<close>

definition handleSendMessage_try_scope :: "string list" where
  "handleSendMessage_try_scope = [''lowerCaseMessage'', ''isWebsiteGenerationRequest'']"

definition generateWebsiteAsync_scope :: "string list" where
  "generateWebsiteAsync_scope = [''message'']"

text \<open>
  \<open>resolve x chain v\<close>: the identifier \<open>x\<close> evaluated under the scope chain \<open>chain\<close>
  (innermost first), where \<open>v\<close> is the value its declaration holds.
\<close>

definition resolve :: "string \<Rightarrow> string list list \<Rightarrow> 'a \<Rightarrow> 'a binding" where
  "resolve x chain v = (if list_ex (\<lambda>scope. x \<in> set scope) chain then Bound v else Unresolvable)"

subsection \<open>The component state\<close>

text \<open>
  The state hooks of lines 5-8, and what the controller does to the outside: the errors
  handed to \<open>console.error\<close>, the calls of \<open>speech.stop()\<close>, the calls of
  \<open>generateWebsiteAsync\<close> made so far and how many of its promises are still awaited.
\<close>

record app_state =
  messages :: "string list"
  input :: string
  isListening :: bool
  generatedWebsiteUrlRef :: "string option"
  console_error_calls :: "js_error list"
  speech_stop_calls :: nat
  generation_calls :: nat
  in_flight :: nat

definition initial_state :: app_state where
  "initial_state =
     \<lparr>messages = [], input = [], isListening = False, generatedWebsiteUrlRef = None,
      console_error_calls = [], speech_stop_calls = 0, generation_calls = 0, in_flight = 0\<rparr>"

definition setIsListening :: "bool \<Rightarrow> app_state \<Rightarrow> app_state" where
  "setIsListening b s = s\<lparr>isListening := b\<rparr>"

definition console_error :: "js_error \<Rightarrow> app_state \<Rightarrow> app_state" where
  "console_error e s = s\<lparr>console_error_calls := console_error_calls s @ [e]\<rparr>"

subsection \<open>\<open>toggleListening\<close> (lines 27-29)\<close>

text \<open>
  \<open>speech && (speech.stop(), setIsListening(false))\<close>. The first argument is what the
  identifier \<open>speech\<close> evaluates to on line 28.
\<close>

datatype speech_value = NoRecognizer | Recognizer

definition toggleListening_body :: "speech_value binding \<Rightarrow> app_state \<Rightarrow> completion \<times> app_state" where
  "toggleListening_body speech s =
     (case speech of
        Unresolvable \<Rightarrow> (Throw (ReferenceError ''speech''), s)
      | Bound NoRecognizer \<Rightarrow> (Normal, s)
      | Bound Recognizer \<Rightarrow>
          (Normal, setIsListening False (s\<lparr>speech_stop_calls := Suc (speech_stop_calls s)\<rparr>)))"

text \<open>
  The scope chain of line 28 is the callback, \<open>App\<close>, the module and the global object;
  \<open>initSpeech_scope\<close>, where \<open>speech\<close> is declared, is not on it. \<open>recognizer\<close> is the
  value that declaration holds.
\<close>

definition speech_at_line_28 :: "speech_value \<Rightarrow> speech_value binding" where
  "speech_at_line_28 recognizer =
     resolve ''speech'' [toggleListening_scope, App_scope, module_scope, global_scope] recognizer"

definition toggleListening :: "speech_value \<Rightarrow> app_state \<Rightarrow> completion \<times> app_state" where
  "toggleListening recognizer s = toggleListening_body (speech_at_line_28 recognizer) s"

subsection \<open>\<open>generateWebsiteAsync\<close> (line 55)\<close>

text \<open>
  The body is the one call \<open>consoleWarn(...)\<close>; there is no \<open>return\<close>, so the promise
  is fulfilled with \<open>undefined\<close> (\<open>None\<close>) when that call returns. No scope of the
  file declares \<open>consoleWarn\<close>.
\<close>

definition generateWebsiteAsync_body :: "unit binding \<Rightarrow> string option settled" where
  "generateWebsiteAsync_body consoleWarn =
     (case consoleWarn of
        Unresolvable \<Rightarrow> Rejected (ReferenceError ''consoleWarn'')
      | Bound _ \<Rightarrow> Fulfilled None)"

definition generateWebsiteAsync :: "string option settled" where
  "generateWebsiteAsync =
     generateWebsiteAsync_body
       (resolve ''consoleWarn'' [generateWebsiteAsync_scope, App_scope, module_scope, global_scope] ())"

subsection \<open>\<open>handleSendMessage\<close> (lines 31-45)\<close>

text \<open>
  An async function runs synchronously up to its first \<open>await\<close> and goes on when the
  awaited promise settles. \<open>handleSendMessage_enter\<close> is the first part: line 32, then
  the \<open>try\<close> block up to the call on line 38, or through \<open>finally\<close> when line 38 makes
  no call. \<open>handleSendMessage_resume\<close> is the rest, given how the awaited promise
  settled: \<open>catch\<close> when it was rejected, then \<open>finally\<close>.

  The first argument is what the identifier \<open>isWebsiteGenerationRequest\<close> evaluates to on
  line 32. That line stands before the \<open>try\<close> statement: what it throws is not caught,
  and rejects the promise of \<open>handleSendMessage\<close>.
\<close>

datatype progress = Settled "unit settled" | Awaiting_generation

definition handleSendMessage_enter ::
  "(string \<Rightarrow> bool) binding \<Rightarrow> string \<Rightarrow> app_state \<Rightarrow> progress \<times> app_state" where
  "handleSendMessage_enter classify messageText s =
     (case classify of
        Unresolvable \<Rightarrow> (Settled (Rejected (ReferenceError ''isWebsiteGenerationRequest'')), s)
      | Bound f \<Rightarrow>
          if \<not> f messageText then (Settled (Fulfilled ()), s)
          else
            let s1 = setIsListening True s;
                lowerCaseMessage = toLowerCase messageText
            in if includes_str lowerCaseMessage ''generate website''
               then (Awaiting_generation,
                     s1\<lparr>generation_calls := Suc (generation_calls s1),
                        in_flight := Suc (in_flight s1)\<rparr>)
               else (Settled (Fulfilled ()), setIsListening False s1))"

definition handleSendMessage_resume ::
  "string option settled \<Rightarrow> app_state \<Rightarrow> unit settled \<times> app_state" where
  "handleSendMessage_resume generated s =
     (let s1 = s\<lparr>in_flight := in_flight s - 1\<rparr> in
      case generated of
        Fulfilled url \<Rightarrow> (Fulfilled (), setIsListening False s1)
      | Rejected error \<Rightarrow> (Fulfilled (), setIsListening False (console_error error s1)))"

text \<open>One call from start to end, the generation task settling as \<open>generated\<close>.\<close>

definition handleSendMessage_body ::
  "(string \<Rightarrow> bool) binding \<Rightarrow> string \<Rightarrow> string option settled \<Rightarrow> app_state
     \<Rightarrow> unit settled \<times> app_state" where
  "handleSendMessage_body classify messageText generated s =
     (case handleSendMessage_enter classify messageText s of
        (Settled r, s') \<Rightarrow> (r, s')
      | (Awaiting_generation, s') \<Rightarrow> handleSendMessage_resume generated s')"

text \<open>
  The scope chain of line 32 is \<open>handleSendMessage\<close>, \<open>App\<close>, the module and the global
  object. The declaration of line 40 belongs to \<open>handleSendMessage_try_scope\<close>, which
  is not on it. (Read as sloppy-mode code the name would be a \<open>var\<close> of the function,
  still \<open>undefined\<close> on line 32, and the call would throw a \<open>TypeError\<close> at the same
  place.)
\<close>

definition classifier_at_line_32 :: "(string \<Rightarrow> bool) binding" where
  "classifier_at_line_32 =
     resolve ''isWebsiteGenerationRequest''
       [handleSendMessage_scope, App_scope, module_scope, global_scope]
       isWebsiteGenerationRequest"

definition handleSendMessage ::
  "string \<Rightarrow> string option settled \<Rightarrow> app_state \<Rightarrow> unit settled \<times> app_state" where
  "handleSendMessage messageText generated s =
     handleSendMessage_body classifier_at_line_32 messageText generated s"

subsection \<open>Sequences of operations\<close>

text \<open>
  \<open>run\<close>: operations one after the other, each submission running to its end before the
  next operation. An error thrown by one operation does not stop the next.
\<close>

datatype operation = Submit string "string option settled" | ToggleListening

fun exec_op ::
  "(string \<Rightarrow> bool) binding \<Rightarrow> speech_value binding \<Rightarrow> operation \<Rightarrow> app_state \<Rightarrow> app_state" where
  "exec_op classify speech (Submit messageText generated) s =
     snd (handleSendMessage_body classify messageText generated s)"
| "exec_op classify speech ToggleListening s = snd (toggleListening_body speech s)"

fun run ::
  "(string \<Rightarrow> bool) binding \<Rightarrow> speech_value binding \<Rightarrow> operation list \<Rightarrow> app_state \<Rightarrow> app_state" where
  "run classify speech [] s = s"
| "run classify speech (x # xs) s = run classify speech xs (exec_op classify speech x s)"

text \<open>
  \<open>reachable classify speech\<close>: the states of the component with submissions
  interleaved, under the given bindings of the classifier on line 32 and of \<open>speech\<close> on
  line 28: a submission may arrive while the generation task of an earlier one is still
  awaited, and an awaited task may settle at any later moment.
\<close>

inductive reachable ::
  "(string \<Rightarrow> bool) binding \<Rightarrow> speech_value binding \<Rightarrow> app_state \<Rightarrow> bool"
  for classify :: "(string \<Rightarrow> bool) binding" and speech :: "speech_value binding" where
  init: "reachable classify speech initial_state"
| submit: "reachable classify speech s \<Longrightarrow>
     reachable classify speech (snd (handleSendMessage_enter classify messageText s))"
| settle: "reachable classify speech s \<Longrightarrow> 0 < in_flight s \<Longrightarrow>
     reachable classify speech (snd (handleSendMessage_resume generated s))"
| toggle: "reachable classify speech s \<Longrightarrow>
     reachable classify speech (snd (toggleListening_body speech s))"

section \<open>Properties\<close>

subsection \<open>Identifier resolution\<close>

text \<open>None of the three identifiers is bound where the code evaluates it.\<close>

lemma classifier_at_line_32_unresolvable: "classifier_at_line_32 = Unresolvable"
  by (simp add: classifier_at_line_32_def resolve_def handleSendMessage_scope_def App_scope_def
      module_scope_def global_scope_def)

lemma speech_at_line_28_unresolvable: "speech_at_line_28 recognizer = Unresolvable"
  by (simp add: speech_at_line_28_def resolve_def toggleListening_scope_def App_scope_def
      module_scope_def global_scope_def)


text \<open>
  Whatever \<open>consoleWarn\<close> is bound to, the promise of \<open>generateWebsiteAsync\<close> is never
  fulfilled with a URL: the body has no \<open>return\<close>.
\<close>

lemma generateWebsiteAsync_body_no_url:
  "generateWebsiteAsync_body consoleWarn \<noteq> Fulfilled (Some url)"
  by (simp add: generateWebsiteAsync_body_def split: binding.splits)

text \<open>
  The declarations exist, in scopes that are not on the chain: the classifier inside the
  \<open>try\<close> block, \<open>speech\<close> inside \<open>initSpeech\<close>. From inside the \<open>try\<close> block the
  classifier is bound.
\<close>

lemma classifier_bound_inside_try:
  "resolve ''isWebsiteGenerationRequest''
     [handleSendMessage_try_scope, handleSendMessage_scope, App_scope, module_scope, global_scope]
     isWebsiteGenerationRequest = Bound isWebsiteGenerationRequest"
  by (simp add: resolve_def handleSendMessage_try_scope_def)

lemma speech_bound_inside_initSpeech:
  "resolve ''speech'' [initSpeech_scope, App_scope, module_scope, global_scope] recognizer =
     Bound recognizer"
  by (simp add: resolve_def initSpeech_scope_def)

text \<open>The other identifiers that \<open>handleSendMessage\<close> evaluates are bound.\<close>

lemma handleSendMessage_other_identifiers:
  "resolve ''setIsListening'' [handleSendMessage_try_scope, handleSendMessage_scope, App_scope,
     module_scope, global_scope] () = Bound ()"
  "resolve ''generateWebsiteAsync'' [handleSendMessage_try_scope, handleSendMessage_scope,
     App_scope, module_scope, global_scope] () = Bound ()"
  "resolve ''console'' [handleSendMessage_scope, App_scope, module_scope, global_scope] () =
     Bound ()"
  by (simp_all add: resolve_def handleSendMessage_try_scope_def handleSendMessage_scope_def
      App_scope_def module_scope_def global_scope_def)

subsection \<open>The classifier\<close>

lemma isWebsiteGenerationRequest_iff:
  "isWebsiteGenerationRequest message \<longleftrightarrow>
     includes_str message ''build website'' \<or> includes_str message ''create website''"
  by (simp add: isWebsiteGenerationRequest_def regex_test_def)

lemma matches_at_map: "matches_at s p \<Longrightarrow> matches_at (map f s) (map f p)"
  by (induction s p rule: matches_at.induct) simp_all

lemma includes_str_map: "includes_str s p \<Longrightarrow> includes_str (map f s) (map f p)"
proof (induction s)
  case Nil
  then show ?case using matches_at_map [of "[]" p f] by simp
next
  case (Cons c cs)
  then show ?case using matches_at_map [of "c # cs" p f] by auto
qed

lemma toLowerCase_triggers:
  "toLowerCase ''build website'' = ''build website''"
  "toLowerCase ''create website'' = ''create website''"
  by code_simp+

text \<open>
  A text that holds none of the trigger phrases, whatever the letter case, is not a
  request.
\<close>

lemma isWebsiteGenerationRequest_needs_trigger:
  assumes "isWebsiteGenerationRequest message"
  shows "includes_str (toLowerCase message) ''build website'' \<or>
         includes_str (toLowerCase message) ''create website''"
proof -
  from assms consider "includes_str message ''build website''"
    | "includes_str message ''create website''"
    by (auto simp: isWebsiteGenerationRequest_iff)
  then show ?thesis
  proof cases
    case 1
    then have "includes_str (toLowerCase message) (toLowerCase ''build website'')"
      unfolding toLowerCase_def by (rule includes_str_map)
    then show ?thesis by (simp only: toLowerCase_triggers) simp
  next
    case 2
    then have "includes_str (toLowerCase message) (toLowerCase ''create website'')"
      unfolding toLowerCase_def by (rule includes_str_map)
    then show ?thesis by (simp only: toLowerCase_triggers) simp
  qed
qed

subsection \<open>What the closures do, as the file binds their identifiers\<close>

lemma handleSendMessage_rejects:
  "handleSendMessage messageText generated s =
     (Rejected (ReferenceError ''isWebsiteGenerationRequest''), s)"
  by (simp add: handleSendMessage_def handleSendMessage_body_def handleSendMessage_enter_def
      classifier_at_line_32_unresolvable)

lemma toggleListening_throws:
  "toggleListening recognizer s = (Throw (ReferenceError ''speech''), s)"
  by (simp add: toggleListening_def toggleListening_body_def speech_at_line_28_unresolvable)

text \<open>
  As the file binds the two identifiers, no operation changes the state: the initial
  state is the only reachable one.
\<close>

lemma reachable_is_initial:
  "reachable classifier_at_line_32 (speech_at_line_28 recognizer) s \<Longrightarrow> s = initial_state"
proof (induction rule: reachable.induct)
  case init
  show ?case by simp
next
  case (submit s messageText)
  then show ?case
    by (simp add: handleSendMessage_enter_def classifier_at_line_32_unresolvable)
next
  case (settle s generated)
  then show ?case by (simp add: initial_state_def)
next
  case (toggle s)
  then show ?case
    by (simp add: toggleListening_body_def speech_at_line_28_unresolvable)
qed

subsection \<open>What the bodies do under any binding\<close>

lemma handleSendMessage_body_frame:
  "messages (snd (handleSendMessage_body classify messageText generated s)) = messages s"
  "generatedWebsiteUrlRef (snd (handleSendMessage_body classify messageText generated s)) =
     generatedWebsiteUrlRef s"
  by (auto simp: handleSendMessage_body_def handleSendMessage_enter_def
      handleSendMessage_resume_def setIsListening_def console_error_def Let_def
      split: binding.splits settled.splits)

lemma handleSendMessage_body_isListening:
  "\<not> isListening s \<Longrightarrow>
   \<not> isListening (snd (handleSendMessage_body classify messageText generated s))"
  by (auto simp: handleSendMessage_body_def handleSendMessage_enter_def
      handleSendMessage_resume_def setIsListening_def console_error_def Let_def
      split: binding.splits settled.splits)

lemma toggleListening_body_isListening:
  "\<not> isListening s \<Longrightarrow> \<not> isListening (snd (toggleListening_body speech s))"
  by (auto simp: toggleListening_body_def setIsListening_def
      split: binding.splits speech_value.splits)

lemma toggleListening_body_frame:
  "messages (snd (toggleListening_body speech s)) = messages s"
  "generatedWebsiteUrlRef (snd (toggleListening_body speech s)) = generatedWebsiteUrlRef s"
  by (auto simp: toggleListening_body_def setIsListening_def
      split: binding.splits speech_value.splits)

lemma exec_op_isListening:
  "\<not> isListening s \<Longrightarrow> \<not> isListening (exec_op classify speech x s)"
  by (cases x) (simp_all add: handleSendMessage_body_isListening toggleListening_body_isListening)

lemma run_isListening:
  "\<not> isListening s \<Longrightarrow> \<not> isListening (run classify speech xs s)"
  by (induction xs arbitrary: s) (simp_all add: exec_op_isListening)

lemma exec_op_messages: "messages (exec_op classify speech x s) = messages s"
  by (cases x) (simp_all add: handleSendMessage_body_frame toggleListening_body_frame)

lemma run_messages: "messages (run classify speech xs s) = messages s"
  by (induction xs arbitrary: s) (simp_all add: exec_op_messages)

text \<open>
  With the classifier bound, a submission that the guard of line 38 lets through calls
  the generation task once, and the handler's promise is fulfilled however the task
  settles; a rejection is handed to \<open>console.error\<close> once.
\<close>

lemma handleSendMessage_body_generation:
  assumes "f messageText" "includes_str (toLowerCase messageText) ''generate website''"
  shows "handleSendMessage_body (Bound f) messageText (Fulfilled url) s =
           (Fulfilled (), s\<lparr>isListening := False, generation_calls := Suc (generation_calls s)\<rparr>)"
    and "handleSendMessage_body (Bound f) messageText (Rejected e) s =
           (Fulfilled (),
            s\<lparr>isListening := False, console_error_calls := console_error_calls s @ [e],
              generation_calls := Suc (generation_calls s)\<rparr>)"
  using assms
  by (simp_all add: handleSendMessage_body_def handleSendMessage_enter_def
      handleSendMessage_resume_def setIsListening_def console_error_def Let_def)

lemma handleSendMessage_body_bound_fulfils:
  "fst (handleSendMessage_body (Bound f) messageText generated s) = Fulfilled ()"
  by (auto simp: handleSendMessage_body_def handleSendMessage_enter_def
      handleSendMessage_resume_def Let_def split: settled.splits)

text \<open>
  The body holds no test of a task in flight: with the classifier bound, a second
  submission that arrives while the first is awaited starts a second task.
\<close>

lemma handleSendMessage_enter_no_guard:
  assumes "f messageText" "includes_str (toLowerCase messageText) ''generate website''"
  shows "in_flight (snd (handleSendMessage_enter (Bound f) messageText s)) = Suc (in_flight s)"
  using assms by (simp add: handleSendMessage_enter_def setIsListening_def Let_def)

text \<open>
  With \<open>speech\<close> bound, \<open>toggleListening\<close> returns normally, and on an idle state it
  leaves the flag as it is.
\<close>

lemma toggleListening_body_bound:
  "fst (toggleListening_body (Bound v) s) = Normal"
  "\<not> isListening s \<Longrightarrow> isListening (snd (toggleListening_body (Bound v) s)) = isListening s"
  by (auto simp: toggleListening_body_def setIsListening_def split: speech_value.splits)

section \<open>The claims\<close>

subsection \<open>Concrete inputs\<close>

lemma create_website_text:
  "isWebsiteGenerationRequest ''please create website for me''"
  "\<not> includes_str (toLowerCase ''please create website for me'') ''generate website''"
  by code_simp+


lemma hello_text: "\<not> isWebsiteGenerationRequest ''hello''"
  by code_simp

subsection \<open>C1\<close>

text \<open>
  C1 says that every text holding "build website", "create website" or "generate
  website", in any letter case, is classified as a request. The classifier of line 40
  tests \<open>/build website|create website/\<close>: it turns down the text "generate website",
  and it turns down "Build Website", since the expression has no \<open>i\<close> flag.
\<close>

theorem isWebsiteGenerationRequest_misses_generate_website:
  "isWebsiteGenerationRequest ''generate website'' = False \<and>
   isWebsiteGenerationRequest ''Build Website'' = False"
  by code_simp

subsection \<open>C2\<close>

text \<open>
  C2, as amended: a submission calls \<open>generateWebsiteAsync\<close> only if the classifier
  accepts the text and the lower-cased text holds "generate website" (the guard of line
  38). The statement is about the handler as the file binds the classifier and about the
  handler with the classifier bound.
\<close>

theorem handleSendMessage_generation_guard:
  assumes "\<not> (isWebsiteGenerationRequest messageText \<and>
              includes_str (toLowerCase messageText) ''generate website'')"
  shows "generation_calls (snd (handleSendMessage messageText generated s)) =
           generation_calls s \<and>
         generation_calls
           (snd (handleSendMessage_body (Bound isWebsiteGenerationRequest) messageText generated s)) =
           generation_calls s"
  using assms
  by (auto simp: handleSendMessage_rejects handleSendMessage_body_def
      handleSendMessage_enter_def setIsListening_def Let_def)

theorem handleSendMessage_generation_guard_witness:
  "\<not> (isWebsiteGenerationRequest ''please create website for me'' \<and>
      includes_str (toLowerCase ''please create website for me'') ''generate website'') \<and>
   generation_calls
     (snd (handleSendMessage ''please create website for me'' generateWebsiteAsync initial_state)) =
     generation_calls initial_state \<and>
   generation_calls
     (snd (handleSendMessage_body (Bound isWebsiteGenerationRequest)
            ''please create website for me'' generateWebsiteAsync initial_state)) =
     generation_calls initial_state"
  using handleSendMessage_generation_guard
    [of "''please create website for me''" generateWebsiteAsync initial_state]
    create_website_text
  by simp

text \<open>
  C2 as stated fails: "please create website for me" is classified as a request, and
  its submission calls the generation task zero times.
\<close>

theorem handleSendMessage_create_website_starts_nothing:
  "isWebsiteGenerationRequest ''please create website for me'' \<and>
   generation_calls
     (snd (handleSendMessage ''please create website for me''
            (Fulfilled (Some ''https://example.com/site'')) initial_state)) = 0 \<and>
   generation_calls
     (snd (handleSendMessage_body (Bound isWebsiteGenerationRequest)
            ''please create website for me''
            (Fulfilled (Some ''https://example.com/site'')) initial_state)) = 0"
  using create_website_text
  by (simp add: handleSendMessage_rejects handleSendMessage_body_def
      handleSendMessage_enter_def setIsListening_def Let_def initial_state_def)

subsection \<open>C3\<close>

text \<open>
  C3: after any sequence of operations from the initial state, a submission of any text,
  with any outcome of the generation task, ends with the flag \<open>isListening\<close> false. It
  holds under every binding of the classifier and of \<open>speech\<close>, the bindings of the file
  among them.
\<close>

theorem handleSendMessage_ends_not_listening:
  "isListening
     (snd (handleSendMessage_body classify messageText generated
            (run classify speech ops initial_state))) = False"
proof -
  have "\<not> isListening initial_state"
    by (simp add: initial_state_def)
  then have "\<not> isListening (run classify speech ops initial_state)"
    by (rule run_isListening)
  then show ?thesis
    using handleSendMessage_body_isListening by simp
qed

theorem handleSendMessage_ends_not_listening_witness:
  "isListening
     (snd (handleSendMessage ''build website'' (Rejected (TaskError ''failed''))
            (run classifier_at_line_32 (speech_at_line_28 Recognizer)
               [Submit ''hello'' (Fulfilled None), ToggleListening,
                Submit ''create website and generate website'' (Fulfilled (Some ''u''))]
               initial_state))) = False"
  using handleSendMessage_ends_not_listening
    [of classifier_at_line_32 "''build website''" "Rejected (TaskError ''failed'')"
        "speech_at_line_28 Recognizer"
        "[Submit ''hello'' (Fulfilled None), ToggleListening,
          Submit ''create website and generate website'' (Fulfilled (Some ''u''))]"]
  by (simp only: handleSendMessage_def)

subsection \<open>C5\<close>



subsection \<open>C6\<close>

text \<open>
  C6 says that the submission of a text that is no request, such as "hello", appends one
  entry to the transcript. The transcript is as empty after the submission as before,
  under the binding of the file and with the classifier bound: line 32 returns, and the
  \<open>setMessages\<close> that its comment names is not called.
\<close>

theorem handleSendMessage_hello_appends_nothing:
  "\<not> isWebsiteGenerationRequest ''hello'' \<and>
   messages (snd (handleSendMessage ''hello'' generateWebsiteAsync initial_state)) = [] \<and>
   messages
     (snd (handleSendMessage_body (Bound isWebsiteGenerationRequest) ''hello''
            generateWebsiteAsync initial_state)) = []"
  using hello_text
  by (simp add: handleSendMessage_body_frame handleSendMessage_def initial_state_def)

subsection \<open>C7\<close>







subsection \<open>C8\<close>

text \<open>
  C8 says that the promise of \<open>handleSendMessage\<close> is never rejected. For the text
  "hello" it is rejected, with the \<open>ReferenceError\<close> of line 32, which no \<open>try\<close>
  encloses.
\<close>

theorem handleSendMessage_hello_rejects:
  "fst (handleSendMessage ''hello'' generateWebsiteAsync initial_state) =
     Rejected (ReferenceError ''isWebsiteGenerationRequest'')"
  by (simp add: handleSendMessage_rejects)

subsection \<open>C9\<close>

text \<open>
  C9 says that \<open>toggleListening\<close> on an idle controller does not throw. On the initial
  state, whatever \<open>initSpeech\<close> stored in its own \<open>speech\<close>, the call throws a
  \<open>ReferenceError\<close>; the state stays as it was, at the first call and at a repeated one.
\<close>

theorem toggleListening_idle_throws:
  "toggleListening recognizer initial_state = (Throw (ReferenceError ''speech''), initial_state) \<and>
   toggleListening recognizer (snd (toggleListening recognizer initial_state)) =
     (Throw (ReferenceError ''speech''), initial_state)"
  by (simp add: toggleListening_throws)

subsection \<open>C10\<close>

text \<open>
  C10: after every finite sequence of submissions and \<open>toggleListening\<close> calls from the
  initial state the transcript is the empty list, under every binding of the classifier
  and of \<open>speech\<close>.
\<close>

theorem run_transcript_stays_empty:
  "messages (run classify speech ops initial_state) = []"
  by (simp add: run_messages initial_state_def)

theorem run_transcript_stays_empty_witness:
  "messages
     (run classifier_at_line_32 (speech_at_line_28 Recognizer)
        [Submit ''hello'' generateWebsiteAsync, ToggleListening,
         Submit ''create website and generate website''
           (Fulfilled (Some ''https://example.com/site''))]
        initial_state) = [] \<and>
   messages
     (run (Bound isWebsiteGenerationRequest) (Bound Recognizer)
        [Submit ''hello'' generateWebsiteAsync, ToggleListening,
         Submit ''create website and generate website''
           (Fulfilled (Some ''https://example.com/site''))]
        initial_state) = []"
  using run_transcript_stays_empty
    [of classifier_at_line_32 "speech_at_line_28 Recognizer"
        "[Submit ''hello'' generateWebsiteAsync, ToggleListening,
          Submit ''create website and generate website''
            (Fulfilled (Some ''https://example.com/site''))]"]
    run_transcript_stays_empty
    [of "Bound isWebsiteGenerationRequest" "Bound Recognizer"
        "[Submit ''hello'' generateWebsiteAsync, ToggleListening,
          Submit ''create website and generate website''
            (Fulfilled (Some ''https://example.com/site''))]"]
  by simp

end
